theory Spec2Isabelle
  imports Complex_Main
begin

section \<open>JavaScript values\<close>

text \<open>
  The program is JavaScript. Three conventions hold for the whole development.
  \<^item> A JavaScript number that counts tokens, milliseconds or questions is an \<open>int\<close>.
    A number that holds money is a \<open>rat\<close>: the arithmetic of the source is carried out
    exactly, so the rounding of IEEE doubles is left out of the model.
  \<^item> A JavaScript string is a \<open>string\<close>; one \<open>char\<close> stands for one UTF-16 code unit in
    the range 0 to 255, so \<open>length\<close> is the source's \<open>.length\<close> on such strings.
  \<^item> Console output, the thinking animation and the debug switch only print; they change
    no field and return nothing, and are left out.
\<close>

text \<open>A field of an object literal that may be missing, \<open>null\<close>, or hold a value.\<close>

datatype 'a jsfield = Absent | Null | Value 'a

text \<open>\<open>x || 0\<close> on a count that may be missing.\<close>

fun or0 :: "int option \<Rightarrow> int" where
  "or0 None = 0"
| "or0 (Some n) = n"

text \<open>\<open>Math.ceil\<close> on an exact quotient.\<close>

definition Math_ceil :: "rat \<Rightarrow> int" where
  "Math_ceil x = \<lceil>x\<rceil>"

text \<open>
  The quotient \<open>a / b\<close> of two finite JavaScript numbers. Division by zero does not raise:
  it yields \<open>NaN\<close> or an infinity.
\<close>

datatype quotient = Finite rat | NaN | Infinity | NegInfinity

definition js_div :: "rat \<Rightarrow> rat \<Rightarrow> quotient" where
  "js_div a b =
     (if b = 0 then (if a = 0 then NaN else if 0 < a then Infinity else NegInfinity)
      else Finite (a / b))"

section \<open>The completion result handed to the cost tracker\<close>

record usage =
  prompt_tokens :: "int option"
  completion_tokens :: "int option"
  total_tokens :: "int option"

text \<open>
  The object \<open>LLMService.answerQuestion\<close> returns. The success object has \<open>tokensUsed\<close>,
  \<open>usage\<close> and \<open>model\<close> and no \<open>error\<close>; the fallback object has \<open>error\<close> and none of the
  three.
\<close>

record llm_response =
  question :: string
  answer :: string
  tokensUsed :: "int option"
  usage :: "usage option"
  res_model :: "string option"
  error :: "string option"
  timestamp :: "string option"

section \<open>cost-tracker.js\<close>

record 'a io =
  input :: 'a
  "output" :: 'a

record token_totals = "int io" +
  total :: int

record cost =
  inputTokens :: int
  outputTokens :: int
  totalTokens :: int
  inputCost :: rat
  outputCost :: rat
  totalCost :: rat

text \<open>One element of \<open>this.sessions\<close>.\<close>

record session =
  entry_question :: string
  entry_responseTime :: int
  tokens :: cost
  entry_timestamp :: string

record CostTracker =
  sessions :: "session list"
  session_totalCost :: rat
  session_totalTokens :: token_totals
  pricing :: "rat io"

text \<open>The constructor.\<close>

definition CostTracker_new :: CostTracker where
  "CostTracker_new =
     \<lparr> sessions = [],
       session_totalCost = 0,
       session_totalTokens = \<lparr> input = 0, output = 0, total = 0 \<rparr>,
       pricing = \<lparr> input = 0.0015 / 1000, output = 0.002 / 1000 \<rparr> \<rparr>"

text \<open>\<open>calculateQueryCost\<close>; the display string \<open>formattedCost\<close> is presentation and left out.\<close>

definition calculateQueryCost :: "CostTracker \<Rightarrow> int \<Rightarrow> int \<Rightarrow> cost" where
  "calculateQueryCost t inTok outTok =
     (let inC = of_int inTok * input (pricing t);
          outC = of_int outTok * output (pricing t);
          totC = inC + outC
      in \<lparr> inputTokens = inTok,
           outputTokens = outTok,
           totalTokens = inTok + outTok,
           inputCost = inC,
           outputCost = outC,
           totalCost = totC \<rparr>)"

text \<open>
  The token counts \<open>trackQuery\<close> prices: the reported ones, or the estimate when both are
  zero or missing (\<open>response.usage || {}\<close>, \<open>usage.prompt_tokens || 0\<close>).
\<close>

definition reported_tokens :: "'a llm_response_scheme \<Rightarrow> int \<times> int" where
  "reported_tokens response =
     (case usage response of
        None \<Rightarrow> (0, 0)
      | Some u \<Rightarrow> (or0 (prompt_tokens u), or0 (completion_tokens u)))"

definition tracked_tokens :: "string \<Rightarrow> 'a llm_response_scheme \<Rightarrow> int \<times> int" where
  "tracked_tokens q response =
     (let (inTok, outTok) = reported_tokens response
      in if inTok = 0 \<and> outTok = 0
         then (Math_ceil (of_nat (length q + 1000) / 4),
               Math_ceil (of_nat (length (answer response)) / 4))
         else (inTok, outTok))"

text \<open>\<open>question.substring(0, 50) + (question.length > 50 ? '...' : '')\<close>.\<close>

definition preview :: "string \<Rightarrow> string" where
  "preview q = take 50 q @ (if length q > 50 then ''...'' else '''')"

text \<open>
  \<open>trackQuery\<close>. The last argument is the string \<open>new Date().toISOString()\<close> returns at the
  call. The result is the returned cost and the tracker after the call.
\<close>

definition trackQuery ::
  "CostTracker \<Rightarrow> string \<Rightarrow> 'a llm_response_scheme \<Rightarrow> int \<Rightarrow> string \<Rightarrow> cost \<times> CostTracker" where
  "trackQuery t q response responseTime stamp =
     (let (inTok, outTok) = tracked_tokens q response;
          c = calculateQueryCost t inTok outTok;
          s = \<lparr> entry_question = preview q,
                entry_responseTime = responseTime,
                tokens = c,
                entry_timestamp = stamp \<rparr>;
          tt = session_totalTokens t
      in (c, t\<lparr> sessions := sessions t @ [s],
                session_totalCost := session_totalCost t + totalCost c,
                session_totalTokens :=
                  \<lparr> input = input tt + inTok,
                    output = output tt + outTok,
                    total = total tt + totalTokens c \<rparr> \<rparr>))"

text \<open>\<open>getSessionStats\<close>; \<open>formattedTotalCost\<close> is presentation and left out.\<close>

record stats =
  totalQueries :: nat
  stats_totalCost :: rat
  stats_totalTokens :: token_totals
  averageCostPerQuery :: quotient
  averageTokensPerQuery :: quotient
  stats_sessions :: "session list"

definition getSessionStats :: "CostTracker \<Rightarrow> stats" where
  "getSessionStats t =
     \<lparr> totalQueries = length (sessions t),
       stats_totalCost = session_totalCost t,
       stats_totalTokens = session_totalTokens t,
       averageCostPerQuery =
         (if length (sessions t) > 0
          then js_div (session_totalCost t) (of_nat (length (sessions t)))
          else Finite 0),
       averageTokensPerQuery =
         (if length (sessions t) > 0
          then js_div (of_int (total (session_totalTokens t))) (of_nat (length (sessions t)))
          else Finite 0),
       stats_sessions = sessions t \<rparr>"

text \<open>A sequence of \<open>trackQuery\<close> calls on one tracker, in order.\<close>

record track_call =
  call_question :: string
  call_response :: llm_response
  call_responseTime :: int
  call_timestamp :: string

fun track_all :: "CostTracker \<Rightarrow> track_call list \<Rightarrow> CostTracker" where
  "track_all t [] = t"
| "track_all t (c # cs) =
     track_all (snd (trackQuery t (call_question c) (call_response c)
                       (call_responseTime c) (call_timestamp c))) cs"

section \<open>Strings\<close>

text \<open>
  \<open>String.prototype.trim\<close> removes white space and line terminators from both ends. Among
  the code units 0 to 255 these are tab, line feed, vertical tab, form feed, carriage
  return, space and the no-break space.
\<close>

definition is_ws :: "char \<Rightarrow> bool" where
  "is_ws c = (c \<in> set [CHR 0x09, CHR 0x0A, CHR 0x0B, CHR 0x0C, CHR 0x0D, CHR 0x20, CHR 0xA0])"

definition trim :: "string \<Rightarrow> string" where
  "trim s = rev (dropWhile is_ws (rev (dropWhile is_ws s)))"

text \<open>A non-negative integer in a template literal: its decimal digits.\<close>

fun show_nat :: "nat \<Rightarrow> string" where
  "show_nat n =
     (if n < 10 then [char_of (48 + n)]
      else show_nat (n div 10) @ [char_of (48 + n mod 10)])"

text \<open>\<open>Array.prototype.join\<close>.\<close>

fun join :: "string \<Rightarrow> string list \<Rightarrow> string" where
  "join sep [] = []"
| "join sep [x] = x"
| "join sep (x # y # ys) = x @ sep @ join sep (y # ys)"

section \<open>llm-service.js\<close>

text \<open>The fields of a loaded property that the prompt reads.\<close>

record property =
  index :: nat
  title :: string
  location :: string
  priceDisplay :: string
  description :: string
  facilitiesText :: string
  address :: string

record llm_options =
  model :: string
  temperature :: rat
  maxTokens :: int
  responseTimeout :: int
  cacheSystemPrompt :: bool

record LLMService =
  options :: llm_options
  cachedSystemPrompt :: "string option"
  properties :: "property list"

text \<open>
  The constructor. The object literal computes a default for every option and then spreads
  the caller's \<open>options\<close> over them; the chatbot passes all five, so they are stored as given.
\<close>

definition LLMService_new :: "llm_options \<Rightarrow> LLMService" where
  "LLMService_new opts = \<lparr> options = opts, cachedSystemPrompt = None, properties = [] \<rparr>"

definition setProperties :: "LLMService \<Rightarrow> property list \<Rightarrow> LLMService" where
  "setProperties s ps = s\<lparr> properties := ps \<rparr>"

definition property_block :: "property \<Rightarrow> string" where
  "property_block p =
     ''Property '' @ show_nat (index p) @ '': '' @ title p @ ''\<newline>'' @
     ''- Location: '' @ location p @ ''\<newline>'' @
     ''- Price: '' @ priceDisplay p @ ''\<newline>'' @
     ''- Description: '' @ description p @ ''\<newline>'' @
     ''- Facilities: '' @ facilitiesText p @ ''\<newline>'' @
     ''- Address: '' @ address p"

definition generateSystemPrompt :: "LLMService \<Rightarrow> string" where
  \<open>generateSystemPrompt s =
     (let propertyData = join ''\<newline>\<newline>'' (map property_block (properties s))
      in
      ''You are a helpful and knowledgeable rental property assistant. You have access to '' @
      show_nat (length (properties s)) @
      '' rental properties and can answer questions about them quickly and accurately.\<newline>'' @
      ''\<newline>'' @
      ''PROPERTY DATABASE:\<newline>'' @
      propertyData @
      ''\<newline>'' @
      ''\<newline>'' @
      ''INSTRUCTIONS:\<newline>'' @
      ''- Answer questions about rental properties using ONLY the data provided above\<newline>'' @
      ''- Be concise but informative in your responses\<newline>'' @
      ''- Always mention specific property details (price, location, facilities) when relevant\<newline>'' @
      ''- If asked about properties not in the database, politely explain you only have information about the '' @
      show_nat (length (properties s)) @
      '' properties listed\<newline>'' @
      ''- For location-based queries, suggest the most relevant properties\<newline>'' @
      ''- For budget-based queries, recommend properties within the specified price range\<newline>'' @
      ''- For facility-based queries (bedrooms, bathrooms, parking), match user needs to property facilities\<newline>'' @
      ''- Always format prices as shown (e.g., $123/night)\<newline>'' @
      ''- Be helpful and enthusiastic about the properties\<newline>'' @
      ''\<newline>'' @
      ''RESPONSE FORMAT:\<newline>'' @
      ''- Keep responses under 200 words for quick reading and faster generation\<newline>'' @
      ''- Use bullet points for multiple property recommendations\<newline>'' @
      ''- Include property names, locations, and prices\<newline>'' @
      ''- Mention key facilities that match the user's needs\<newline>'' @
      ''- Be concise but helpful - prioritize speed and clarity\<newline>'' @
      ''- Write in a friendly, conversational tone\<newline>'' @
      ''- Use encouraging language and show genuine enthusiasm for helping\<newline>'' @
      ''- Add personal touches like "Perfect for you!" or "You'll love this!"\<newline>'' @
      ''- Show empathy if no exact matches found: "I understand you're looking for..."'')\<close>

text \<open>What the completion endpoint returns when the call resolves.\<close>

record message =
  content :: "string option"

record choice =
  message :: "message option"

record api_response =
  choices :: "choice list"
  resp_usage :: "usage option"

text \<open>
  The outcome of \<open>await this.openai.chat.completions.create(...)\<close>: the promise rejects
  with an error carrying a message (transport, authentication, the client library's own
  time limit), or resolves with a response.
\<close>

datatype completion = Rejects string | Resolves api_response

text \<open>The argument of \<open>create\<close>: what the endpoint observes.\<close>

record request =
  req_model :: string
  req_temperature :: rat
  max_tokens :: int
  stream :: bool
  messages :: "(string \<times> string) list"

text \<open>\<open>response.choices[0]?.message?.content\<close>.\<close>

definition first_content :: "api_response \<Rightarrow> string option" where
  "first_content response =
     (case choices response of
        [] \<Rightarrow> None
      | c # _ \<Rightarrow> (case message c of None \<Rightarrow> None | Some m \<Rightarrow> content m))"

text \<open>Truthiness of a string that may be \<open>null\<close> or \<open>undefined\<close>.\<close>

fun truthy :: "string option \<Rightarrow> bool" where
  "truthy None = False"
| "truthy (Some s) = (s \<noteq> [])"

definition llm_apology :: string where
  "llm_apology = ''I apologize, but I'm having trouble processing your question right now. Please try asking about specific properties, locations, price ranges, or facilities you're looking for.''"

text \<open>The object the \<open>catch\<close> block of \<open>answerQuestion\<close> returns.\<close>

definition fallback_response :: "string \<Rightarrow> string \<Rightarrow> string \<Rightarrow> llm_response" where
  "fallback_response q msg stamp =
     \<lparr> question = q, answer = llm_apology, tokensUsed = None, usage = None,
       res_model = None, error = Some msg, timestamp = Some stamp \<rparr>"

text \<open>The object \<open>answerQuestion\<close> returns after a non-empty answer.\<close>

definition success_response ::
  "LLMService \<Rightarrow> string \<Rightarrow> string \<Rightarrow> api_response \<Rightarrow> string \<Rightarrow> llm_response" where
  "success_response s q a response stamp =
     \<lparr> question = q,
       answer = trim a,
       tokensUsed = Some (case resp_usage response of None \<Rightarrow> 0 | Some u \<Rightarrow> or0 (total_tokens u)),
       usage = Some (case resp_usage response of
                       None \<Rightarrow> \<lparr> prompt_tokens = Some 0, completion_tokens = Some 0,
                                 total_tokens = Some 0 \<rparr>
                     | Some u \<Rightarrow> u),
       res_model = Some (model (options s)),
       error = None,
       timestamp = Some stamp \<rparr>"

text \<open>
  \<open>answerQuestion\<close>. The arguments after the question are the outcome of the completion
  call, should it be made, and the string \<open>new Date().toISOString()\<close> returns when the result
  object is built. The result is the request sent to the endpoint (\<open>None\<close> when the call is
  not reached), the returned object and the service after the call. Every error raised in
  the \<open>try\<close> block is caught by its \<open>catch\<close>, so the function has no error result.
\<close>

definition answerQuestion ::
  "LLMService \<Rightarrow> string \<Rightarrow> completion \<Rightarrow> string \<Rightarrow> request option \<times> llm_response \<times> LLMService" where
  "answerQuestion s userQuestion reply stamp =
     (if properties s = []
      then (None,
            fallback_response userQuestion ''No property data loaded. Please load properties first.'' stamp,
            s)
      else
        let systemPrompt =
              (case cachedSystemPrompt s of
                 None \<Rightarrow> generateSystemPrompt s
               | Some p \<Rightarrow>
                   if cacheSystemPrompt (options s) \<and> p \<noteq> [] then p
                   else generateSystemPrompt s);
            s' = (if cacheSystemPrompt (options s) \<and> \<not> truthy (cachedSystemPrompt s)
                  then s\<lparr> cachedSystemPrompt := Some systemPrompt \<rparr>
                  else s);
            req = \<lparr> req_model = model (options s),
                    req_temperature = temperature (options s),
                    max_tokens = maxTokens (options s),
                    stream = False,
                    messages = [(''system'', systemPrompt),
                                (''user'', ''Question: '' @ userQuestion)] \<rparr>
        in case reply of
             Rejects msg \<Rightarrow> (Some req, fallback_response userQuestion msg stamp, s')
           | Resolves response \<Rightarrow>
               (case first_content response of
                  None \<Rightarrow>
                    (Some req, fallback_response userQuestion ''No response received from AI'' stamp, s')
                | Some a \<Rightarrow>
                    if a = []
                    then (Some req,
                          fallback_response userQuestion ''No response received from AI'' stamp, s')
                    else (Some req, success_response s userQuestion a response stamp, s')))"

section \<open>chatbot.js\<close>

text \<open>
  The configuration the constructor reads from the environment, restricted to the entries
  that reach \<open>initialize\<close> and \<open>askQuestion\<close>. The key is \<open>None\<close> when the variable is unset.
\<close>

record config =
  openaiApiKey :: "string option"
  openaiModel :: string
  cfg_temperature :: rat
  cfg_maxTokens :: int
  cfg_responseTimeout :: int
  enableCostTracking :: bool
  cfg_cacheSystemPrompt :: bool

record chatbot =
  llmService :: "LLMService option"
  isInitialized :: bool
  questionCount :: int
  costTracker :: CostTracker
  config :: config

text \<open>The constructor, for a given environment.\<close>

definition RentalPropertyChatbot_new :: "config \<Rightarrow> chatbot" where
  "RentalPropertyChatbot_new cfg =
     \<lparr> llmService = None, isInitialized = False, questionCount = 0,
       costTracker = CostTracker_new, config = cfg \<rparr>"

text \<open>The configuration when only the key is set: every other entry takes its default.\<close>

definition default_config :: "string \<Rightarrow> config" where
  "default_config key =
     \<lparr> openaiApiKey = Some key, openaiModel = ''gpt-3.5-turbo'', cfg_temperature = 0.2,
       cfg_maxTokens = 400, cfg_responseTimeout = 30000, enableCostTracking = True,
       cfg_cacheSystemPrompt = True \<rparr>"

text \<open>
  \<open>initialize\<close>. \<open>isConnected\<close> is what \<open>validateConnection\<close> returns and \<open>loaded\<close> what
  \<open>dataLoader.getProperties\<close> returns (\<open>None\<close> when it raises). Every error is caught and
  turns into the result \<open>false\<close>; fields assigned before the error keep their values.
\<close>

definition initialize :: "chatbot \<Rightarrow> bool \<Rightarrow> property list option \<Rightarrow> bool \<times> chatbot" where
  "initialize c isConnected loaded =
     (if \<not> truthy (openaiApiKey (config c)) then (False, c)
      else
        let svc = LLMService_new
                    \<lparr> model = openaiModel (config c),
                      temperature = cfg_temperature (config c),
                      maxTokens = cfg_maxTokens (config c),
                      responseTimeout = cfg_responseTimeout (config c),
                      cacheSystemPrompt = cfg_cacheSystemPrompt (config c) \<rparr>;
            c1 = c\<lparr> llmService := Some svc \<rparr>
        in if \<not> isConnected then (False, c1)
           else case loaded of
                  None \<Rightarrow> (False, c1)
                | Some ps \<Rightarrow>
                    if ps = [] then (False, c1)
                    else (True, c1\<lparr> llmService := Some (setProperties svc ps),
                                    isInitialized := True \<rparr>))"

text \<open>
  What the environment supplies during one \<open>askQuestion\<close>: the outcome of the completion
  call, the two readings of \<open>Date.now()\<close> and the two strings of \<open>toISOString()\<close>.
\<close>

record ask_env =
  outcome :: completion
  startTime :: int
  endTime :: int
  llm_stamp :: string
  track_stamp :: string

text \<open>The object \<open>askQuestion\<close> returns: the spread response and three more fields.\<close>

record result = llm_response +
  responseTime :: int
  questionNumber :: int
  cost :: "cost jsfield"

definition chatbot_apology :: string where
  "chatbot_apology = ''I apologize, but I encountered an error while processing your question. Please try rephrasing your question or ask about specific properties, locations, or facilities.''"

text \<open>
  \<open>askQuestion\<close>. \<open>Inl\<close> is the error raised to the caller. The \<open>catch\<close> block is entered
  only when the service object is \<open>null\<close>, a state \<open>initialize\<close> never produces together with
  \<open>isInitialized\<close>; its error message is the engine's.
\<close>

definition askQuestion :: "chatbot \<Rightarrow> string \<Rightarrow> ask_env \<Rightarrow> string + (result \<times> chatbot)" where
  "askQuestion c q env =
     (if \<not> isInitialized c
      then Inl ''Chatbot not initialized. Please call initialize() first.''
      else
        let c1 = c\<lparr> questionCount := questionCount c + 1 \<rparr>
        in case llmService c1 of
             None \<Rightarrow>
               Inr (\<lparr> question = q, answer = chatbot_apology, tokensUsed = None, usage = None,
                      res_model = None,
                      error = Some ''Cannot read properties of null (reading 'answerQuestion')'',
                      timestamp = None,
                      responseTime = endTime env - startTime env,
                      questionNumber = questionCount c1,
                      cost = Absent \<rparr>, c1)
           | Some svc \<Rightarrow>
               let (req, response, svc') = answerQuestion svc q (outcome env) (llm_stamp env);
                   elapsed = endTime env - startTime env;
                   (cst, tracker') =
                     (if enableCostTracking (config c1)
                      then let (k, t') = trackQuery (costTracker c1) q response elapsed (track_stamp env)
                           in (Value k, t')
                      else (Null, costTracker c1))
               in Inr (\<lparr> question = question response, answer = answer response,
                         tokensUsed = tokensUsed response, usage = usage response,
                         res_model = res_model response, error = error response,
                         timestamp = timestamp response,
                         responseTime = elapsed,
                         questionNumber = questionCount c1,
                         cost = cst \<rparr>,
                       c1\<lparr> llmService := Some svc', costTracker := tracker' \<rparr>))"

section \<open>Sample inputs\<close>

text \<open>
  Concrete questions, completion results and a chatbot initialised with the default
  configuration and one property, at which the theorems below are evaluated.
\<close>

definition q40 :: string where "q40 = replicate 40 CHR ''q''"

definition zero_usage_response :: llm_response where
  "zero_usage_response =
     \<lparr> question = q40, answer = replicate 80 CHR ''a'', tokensUsed = Some 0,
       usage = Some \<lparr> prompt_tokens = Some 0, completion_tokens = Some 0, total_tokens = Some 0 \<rparr>,
       res_model = Some ''gpt-3.5-turbo'', error = None, timestamp = Some ''2024-01-01T00:00:00.000Z'' \<rparr>"

definition metered_response :: llm_response where
  "metered_response =
     \<lparr> question = ''What's the cheapest property?'', answer = ''Rio Beach House at $18/night'',
       tokensUsed = Some 668,
       usage = Some \<lparr> prompt_tokens = Some 650, completion_tokens = Some 18, total_tokens = Some 668 \<rparr>,
       res_model = Some ''gpt-3.5-turbo'', error = None, timestamp = Some ''2024-01-01T00:00:00.000Z'' \<rparr>"

definition q60 :: string where "q60 = replicate 60 CHR ''q''"

definition metered_call :: track_call where
  "metered_call =
     \<lparr> call_question = ''What's the cheapest property?'', call_response = metered_response,
       call_responseTime = 850, call_timestamp = ''2024-01-01T00:00:01.000Z'' \<rparr>"

definition sample_property :: property where
  "sample_property =
     \<lparr> index = 1, title = ''Rio Beach House'', location = ''Rio de Janeiro, Brazil'',
       priceDisplay = ''$18/night'', description = ''A small house by the beach.'',
       facilitiesText = ''2 bedrooms, 1 bathrooms, 0 parking spaces'',
       address = ''Rua A 1'' \<rparr>"

definition ready_chatbot :: chatbot where
  "ready_chatbot =
     snd (initialize (RentalPropertyChatbot_new (default_config ''sk-test'')) True
            (Some [sample_property]))"

definition cheapest :: string where
  "cheapest = ''What's the cheapest property?''"

definition metered_completion :: api_response where
  "metered_completion =
     \<lparr> choices = [\<lparr> message = Some \<lparr> content = Some ''Rio Beach House at $18/night'' \<rparr> \<rparr>],
       resp_usage = Some \<lparr> prompt_tokens = Some 650, completion_tokens = Some 18,
                           total_tokens = Some 668 \<rparr> \<rparr>"

definition blank_completion :: api_response where
  "blank_completion =
     \<lparr> choices = [\<lparr> message = Some \<lparr> content = Some ''   '' \<rparr> \<rparr>],
       resp_usage = Some \<lparr> prompt_tokens = Some 650, completion_tokens = Some 1,
                           total_tokens = Some 651 \<rparr> \<rparr>"

definition empty_completion :: api_response where
  "empty_completion =
     \<lparr> choices = [\<lparr> message = Some \<lparr> content = Some [] \<rparr> \<rparr>],
       resp_usage = Some \<lparr> prompt_tokens = Some 650, completion_tokens = Some 0,
                           total_tokens = Some 650 \<rparr> \<rparr>"

definition env_of :: "completion \<Rightarrow> int \<Rightarrow> ask_env" where
  "env_of k elapsed =
     \<lparr> outcome = k, startTime = 1000, endTime = 1000 + elapsed,
       llm_stamp = ''2024-01-01T00:00:01.000Z'', track_stamp = ''2024-01-01T00:00:01.001Z'' \<rparr>"

definition ready_service :: LLMService where
  "ready_service =
     \<lparr> options = \<lparr> model = ''gpt-3.5-turbo'', temperature = 0.2, maxTokens = 400,
                     responseTimeout = 30000, cacheSystemPrompt = True \<rparr>,
       cachedSystemPrompt = None, properties = [sample_property] \<rparr>"

definition preset_service :: LLMService where
  "preset_service = ready_service\<lparr> cachedSystemPrompt := Some ''CACHED'' \<rparr>"

definition other_property :: property where
  "other_property =
     \<lparr> index = 1, title = ''Lisbon Loft'', location = ''Lisbon, Portugal'',
       priceDisplay = ''$75/night'', description = ''A loft in the old town.'',
       facilitiesText = ''1 bedrooms, 1 bathrooms, 1 parking spaces'',
       address = ''Rua B 2'' \<rparr>"

section \<open>Properties of the cost tracker\<close>

lemma Math_ceil_div4: "Math_ceil (of_nat n / 4) = (int n + 3) div 4"
proof -
  have "\<lceil>(of_int (int n) :: rat) / of_int 4\<rceil> = - (- int n div 4)"
    by (rule ceiling_divide_eq_div)
  moreover have "- (- int n div 4) = (int n + 3) div 4" by presburger
  ultimately show ?thesis
    unfolding Math_ceil_def by simp
qed

lemma pricing_trackQuery: "pricing (snd (trackQuery t q r rt ts)) = pricing t"
  by (simp add: trackQuery_def Let_def split: prod.split)

lemma pricing_track_all: "pricing (track_all t cs) = pricing t"
  by (induction cs arbitrary: t) (simp_all add: pricing_trackQuery)

lemma reported_zero_iff:
  "reported_tokens r = (0, 0) \<longleftrightarrow>
     (usage r = None \<or>
      (\<exists>u. usage r = Some u
         \<and> (prompt_tokens u = None \<or> prompt_tokens u = Some 0)
         \<and> (completion_tokens u = None \<or> completion_tokens u = Some 0)))"
proof (cases "usage r")
  case None
  then show ?thesis by (simp add: reported_tokens_def)
next
  case (Some u)
  have "or0 (prompt_tokens u) = 0 \<longleftrightarrow> (prompt_tokens u = None \<or> prompt_tokens u = Some 0)"
    by (cases "prompt_tokens u") simp_all
  moreover have "or0 (completion_tokens u) = 0 \<longleftrightarrow>
      (completion_tokens u = None \<or> completion_tokens u = Some 0)"
    by (cases "completion_tokens u") simp_all
  ultimately show ?thesis using Some by (simp add: reported_tokens_def)
qed

lemma trackQuery_tokens:
  "inputTokens (fst (trackQuery t q r rt ts)) = fst (tracked_tokens q r)"
  "outputTokens (fst (trackQuery t q r rt ts)) = snd (tracked_tokens q r)"
  by (simp_all add: trackQuery_def calculateQueryCost_def Let_def split: prod.split)

lemma trackQuery_sessions:
  "sessions (snd (trackQuery t q r rt ts)) =
     sessions t @ [\<lparr> entry_question = preview q, entry_responseTime = rt,
                      tokens = fst (trackQuery t q r rt ts), entry_timestamp = ts \<rparr>]"
  by (simp add: trackQuery_def Let_def split: prod.split)

lemma trackQuery_totalCost:
  "session_totalCost (snd (trackQuery t q r rt ts)) =
     session_totalCost t + totalCost (fst (trackQuery t q r rt ts))"
  by (simp add: trackQuery_def Let_def split: prod.split)

lemma trackQuery_totalTokens:
  "input (session_totalTokens (snd (trackQuery t q r rt ts))) =
     input (session_totalTokens t) + inputTokens (fst (trackQuery t q r rt ts))"
  "output (session_totalTokens (snd (trackQuery t q r rt ts))) =
     output (session_totalTokens t) + outputTokens (fst (trackQuery t q r rt ts))"
  "total (session_totalTokens (snd (trackQuery t q r rt ts))) =
     total (session_totalTokens t) + totalTokens (fst (trackQuery t q r rt ts))"
  by (simp_all add: trackQuery_def calculateQueryCost_def Let_def split: prod.split)

lemma track_all_length:
  "length (sessions (track_all t cs)) = length (sessions t) + length cs"
  by (induction cs arbitrary: t) (simp_all add: trackQuery_sessions)

lemma track_all_prefix:
  "take (length (sessions t)) (sessions (track_all t cs)) = sessions t"
proof (induction cs arbitrary: t)
  case Nil
  show ?case by simp
next
  case (Cons c cs)
  let ?t' = "snd (trackQuery t (call_question c) (call_response c) (call_responseTime c) (call_timestamp c))"
  have "take (length (sessions ?t')) (sessions (track_all ?t' cs)) = sessions ?t'"
    by (rule Cons.IH)
  then have "take (length (sessions t)) (take (length (sessions ?t')) (sessions (track_all ?t' cs)))
      = take (length (sessions t)) (sessions ?t')"
    by simp
  then show ?case
    by (simp add: trackQuery_sessions min_def)
qed

lemma track_all_totalCost:
  "session_totalCost (track_all t cs) - (\<Sum>e\<leftarrow>sessions (track_all t cs). totalCost (tokens e))
     = session_totalCost t - (\<Sum>e\<leftarrow>sessions t. totalCost (tokens e))"
proof (induction cs arbitrary: t)
  case Nil
  show ?case by simp
next
  case (Cons c cs)
  show ?case
    by (simp add: Cons.IH trackQuery_sessions trackQuery_totalCost)
qed

text \<open>
  Claim C2. On every tracker reached from the constructor by \<open>trackQuery\<close> calls, the price
  of \<open>i\<close> input tokens and \<open>o\<close> output tokens is \<open>i \<times> 0.0015/1000 + o \<times> 0.002/1000\<close>, the two
  summands are stored as they are, and the price of no tokens is zero.
\<close>

theorem price_formula:
  "totalCost (calculateQueryCost (track_all CostTracker_new cs) i o') =
     of_int i * (0.0015 / 1000) + of_int o' * (0.002 / 1000)
   \<and> inputCost (calculateQueryCost (track_all CostTracker_new cs) i o') = of_int i * (0.0015 / 1000)
   \<and> outputCost (calculateQueryCost (track_all CostTracker_new cs) i o') = of_int o' * (0.002 / 1000)
   \<and> totalCost (calculateQueryCost (track_all CostTracker_new cs) 0 0) = 0"
  by (simp add: calculateQueryCost_def Let_def pricing_track_all CostTracker_new_def)

text \<open>
  Claim C3. When the reported input and output counts are both zero or missing,
  \<open>trackQuery\<close> prices \<open>ceil((questionLength + 1000) / 4)\<close> input tokens and
  \<open>ceil(answerLength / 4)\<close> output tokens, which is 260 and 20 for a question of 40 and an
  answer of 80 characters; when one reported count is not zero, the reported counts are
  priced as they are. \<open>trackQuery\<close> has no failing branch.
\<close>

theorem token_fallback:
  "((usage r = None \<or>
      (\<exists>u. usage r = Some u
         \<and> (prompt_tokens u = None \<or> prompt_tokens u = Some 0)
         \<and> (completion_tokens u = None \<or> completion_tokens u = Some 0)))
     \<longrightarrow> inputTokens (fst (trackQuery t q r rt ts)) = \<lceil>(of_nat (length q + 1000) :: rat) / 4\<rceil>
       \<and> outputTokens (fst (trackQuery t q r rt ts)) = \<lceil>(of_nat (length (answer r)) :: rat) / 4\<rceil>
       \<and> (length q = 40 \<and> length (answer r) = 80
            \<longrightarrow> inputTokens (fst (trackQuery t q r rt ts)) = 260
              \<and> outputTokens (fst (trackQuery t q r rt ts)) = 20))
   \<and> (\<forall>u. usage r = Some u
          \<and> (or0 (prompt_tokens u) \<noteq> 0 \<or> or0 (completion_tokens u) \<noteq> 0)
        \<longrightarrow> inputTokens (fst (trackQuery t q r rt ts)) = or0 (prompt_tokens u)
          \<and> outputTokens (fst (trackQuery t q r rt ts)) = or0 (completion_tokens u))"
proof (intro conjI impI allI)
  assume z: "usage r = None \<or>
      (\<exists>u. usage r = Some u
         \<and> (prompt_tokens u = None \<or> prompt_tokens u = Some 0)
         \<and> (completion_tokens u = None \<or> completion_tokens u = Some 0))"
  then have rz: "reported_tokens r = (0, 0)" by (simp only: reported_zero_iff)
  then have tt: "tracked_tokens q r =
      (Math_ceil (of_nat (length q + 1000) / 4), Math_ceil (of_nat (length (answer r)) / 4))"
    by (simp add: tracked_tokens_def)
  show i: "inputTokens (fst (trackQuery t q r rt ts)) = \<lceil>(of_nat (length q + 1000) :: rat) / 4\<rceil>"
    by (simp add: trackQuery_tokens tt Math_ceil_def)
  show o: "outputTokens (fst (trackQuery t q r rt ts)) = \<lceil>(of_nat (length (answer r)) :: rat) / 4\<rceil>"
    by (simp add: trackQuery_tokens tt Math_ceil_def)
  {
    assume l: "length q = 40 \<and> length (answer r) = 80"
    have "Math_ceil (of_nat (length q + 1000) / 4) = (int (length q + 1000) + 3) div 4"
      by (rule Math_ceil_div4)
    then have "Math_ceil (of_nat (length q + 1000) / 4) = 260"
      using l by simp
    then show "inputTokens (fst (trackQuery t q r rt ts)) = 260"
      by (simp add: trackQuery_tokens tt)
    have "Math_ceil (of_nat (length (answer r)) / 4) = (int (length (answer r)) + 3) div 4"
      by (rule Math_ceil_div4)
    then have "Math_ceil (of_nat (length (answer r)) / 4) = 20"
      using l by simp
    then show "outputTokens (fst (trackQuery t q r rt ts)) = 20"
      by (simp add: trackQuery_tokens tt)
  }
next
  fix u
  assume a: "usage r = Some u \<and> (or0 (prompt_tokens u) \<noteq> 0 \<or> or0 (completion_tokens u) \<noteq> 0)"
  then have rt: "reported_tokens r = (or0 (prompt_tokens u), or0 (completion_tokens u))"
    by (simp add: reported_tokens_def)
  have tt: "tracked_tokens q r = (or0 (prompt_tokens u), or0 (completion_tokens u))"
    using a by (auto simp: tracked_tokens_def rt)
  show "inputTokens (fst (trackQuery t q r rt ts)) = or0 (prompt_tokens u)"
    by (simp add: trackQuery_tokens tt)
  show "outputTokens (fst (trackQuery t q r rt ts)) = or0 (completion_tokens u)"
    by (simp add: trackQuery_tokens tt)
qed

theorem token_fallback_witness:
  "inputTokens (fst (trackQuery CostTracker_new q40 zero_usage_response 850 ''2024-01-01T00:00:01.000Z'')) = 260
   \<and> outputTokens (fst (trackQuery CostTracker_new q40 zero_usage_response 850 ''2024-01-01T00:00:01.000Z'')) = 20
   \<and> inputTokens (fst (trackQuery CostTracker_new ''What's the cheapest property?'' metered_response 850
         ''2024-01-01T00:00:01.000Z'')) = 650
   \<and> outputTokens (fst (trackQuery CostTracker_new ''What's the cheapest property?'' metered_response 850
         ''2024-01-01T00:00:01.000Z'')) = 18"
  using token_fallback [of zero_usage_response CostTracker_new q40 850 "''2024-01-01T00:00:01.000Z''"]
        token_fallback [of metered_response CostTracker_new "''What's the cheapest property?''" 850
          "''2024-01-01T00:00:01.000Z''"]
  by (simp add: zero_usage_response_def metered_response_def q40_def)

text \<open>
  Claim C4. After any sequence of \<open>trackQuery\<close> calls on a fresh tracker, the log has one
  entry per call, the running total cost is the sum of the entries' total costs, every
  later log starts with the earlier one, and the statistics report that same total and
  count.
\<close>

theorem session_totals_invariant:
  "length (sessions (track_all CostTracker_new cs)) = length cs
   \<and> session_totalCost (track_all CostTracker_new cs)
       = (\<Sum>e\<leftarrow>sessions (track_all CostTracker_new cs). totalCost (tokens e))
   \<and> take (length (sessions (track_all CostTracker_new cs)))
        (sessions (track_all (track_all CostTracker_new cs) ds))
       = sessions (track_all CostTracker_new cs)
   \<and> stats_totalCost (getSessionStats (track_all CostTracker_new cs))
       = (\<Sum>e\<leftarrow>sessions (track_all CostTracker_new cs). totalCost (tokens e))
   \<and> totalQueries (getSessionStats (track_all CostTracker_new cs)) = length cs"
proof -
  have len: "length (sessions (track_all CostTracker_new cs)) = length cs"
    by (simp add: track_all_length CostTracker_new_def)
  have tot: "session_totalCost (track_all CostTracker_new cs)
       = (\<Sum>e\<leftarrow>sessions (track_all CostTracker_new cs). totalCost (tokens e))"
    using track_all_totalCost [of CostTracker_new cs] by (simp add: CostTracker_new_def)
  have pre: "take (length (sessions (track_all CostTracker_new cs)))
        (sessions (track_all (track_all CostTracker_new cs) ds))
       = sessions (track_all CostTracker_new cs)"
    by (rule track_all_prefix)
  have st: "stats_totalCost (getSessionStats (track_all CostTracker_new cs))
       = (\<Sum>e\<leftarrow>sessions (track_all CostTracker_new cs). totalCost (tokens e))"
    using tot by (simp add: getSessionStats_def)
  have nq: "totalQueries (getSessionStats (track_all CostTracker_new cs)) = length cs"
    using len by (simp add: getSessionStats_def)
  from len tot pre st nq show ?thesis by blast
qed

text \<open>
  Claim C9. The entry \<open>trackQuery\<close> appends holds the first 50 characters of the question
  followed by three dots when the question is longer than 50 characters, and the question
  itself otherwise; it holds the response time it was given and the time stamp of the call.
\<close>

theorem preview_truncation:
  "entry_question (last (sessions (snd (trackQuery t q r rt ts))))
     = (if length q > 50 then take 50 q @ ''...'' else q)
   \<and> entry_responseTime (last (sessions (snd (trackQuery t q r rt ts)))) = rt
   \<and> entry_timestamp (last (sessions (snd (trackQuery t q r rt ts)))) = ts"
  by (simp add: trackQuery_sessions preview_def)

theorem preview_truncation_witness:
  "entry_question (last (sessions (snd (trackQuery CostTracker_new q60 metered_response 850
      ''2024-01-01T00:00:01.000Z'')))) = replicate 50 CHR ''q'' @ ''...''
   \<and> entry_question (last (sessions (snd (trackQuery CostTracker_new q40 metered_response 850
      ''2024-01-01T00:00:01.000Z'')))) = q40
   \<and> entry_responseTime (last (sessions (snd (trackQuery CostTracker_new q60 metered_response 850
      ''2024-01-01T00:00:01.000Z'')))) = 850"
  using preview_truncation [of CostTracker_new q60 metered_response 850 "''2024-01-01T00:00:01.000Z''"]
        preview_truncation [of CostTracker_new q40 metered_response 850 "''2024-01-01T00:00:01.000Z''"]
  by (simp add: q60_def q40_def)

text \<open>
  Claim C10. With an empty log both averages of the statistics are the number 0; with a
  non-empty log they are the finite quotients by the log's length. No division by zero is
  evaluated.
\<close>

theorem zero_query_summary:
  "(sessions t = [] \<longrightarrow>
      averageCostPerQuery (getSessionStats t) = Finite 0
      \<and> averageTokensPerQuery (getSessionStats t) = Finite 0)
   \<and> (sessions t \<noteq> [] \<longrightarrow>
      averageCostPerQuery (getSessionStats t)
        = Finite (session_totalCost t / of_nat (length (sessions t)))
      \<and> averageTokensPerQuery (getSessionStats t)
        = Finite (of_int (total (session_totalTokens t)) / of_nat (length (sessions t))))"
  by (simp add: getSessionStats_def js_div_def)

theorem zero_query_summary_witness:
  "sessions CostTracker_new = []
   \<and> averageCostPerQuery (getSessionStats CostTracker_new) = Finite 0
   \<and> averageTokensPerQuery (getSessionStats CostTracker_new) = Finite 0
   \<and> sessions (track_all CostTracker_new [metered_call]) \<noteq> []
   \<and> averageCostPerQuery (getSessionStats (track_all CostTracker_new [metered_call]))
       = Finite (1011 / 1000000)
   \<and> averageTokensPerQuery (getSessionStats (track_all CostTracker_new [metered_call]))
       = Finite 668"
proof -
  have e: "sessions CostTracker_new = []" by (simp add: CostTracker_new_def)
  have n: "sessions (track_all CostTracker_new [metered_call]) \<noteq> []"
    by (simp add: trackQuery_sessions)
  have tt: "tracked_tokens ''What's the cheapest property?'' metered_response = (650, 18)"
    by (simp add: tracked_tokens_def reported_tokens_def metered_response_def)
  have c: "session_totalCost (track_all CostTracker_new [metered_call]) = 1011 / 1000000"
    by (simp add: trackQuery_def tt calculateQueryCost_def metered_call_def CostTracker_new_def Let_def)
  have k: "total (session_totalTokens (track_all CostTracker_new [metered_call])) = 668"
    by (simp add: trackQuery_def tt calculateQueryCost_def metered_call_def CostTracker_new_def Let_def)
  have l: "length (sessions (track_all CostTracker_new [metered_call])) = 1"
    by (simp add: trackQuery_sessions CostTracker_new_def)
  show ?thesis
    using zero_query_summary [of CostTracker_new]
          zero_query_summary [of "track_all CostTracker_new [metered_call]"] e n c k l
    by simp
qed

section \<open>Properties of the completion service and the chatbot\<close>

lemma ready_fields:
  "isInitialized ready_chatbot"
  "enableCostTracking (config ready_chatbot)"
  "questionCount ready_chatbot = 0"
  "costTracker ready_chatbot = CostTracker_new"
  "cfg_responseTimeout (config ready_chatbot) = 30000"
  "llmService ready_chatbot =
     Some \<lparr> options = \<lparr> model = ''gpt-3.5-turbo'', temperature = 0.2, maxTokens = 400,
                          responseTimeout = 30000, cacheSystemPrompt = True \<rparr>,
            cachedSystemPrompt = None, properties = [sample_property] \<rparr>"
  by (simp_all add: ready_chatbot_def initialize_def RentalPropertyChatbot_new_def
        default_config_def LLMService_new_def setProperties_def Let_def)

lemma answerQuestion_response:
  "properties s \<noteq> [] \<Longrightarrow>
   fst (snd (answerQuestion s q k stamp)) =
     (case k of
        Rejects msg \<Rightarrow> fallback_response q msg stamp
      | Resolves response \<Rightarrow>
          (case first_content response of
             None \<Rightarrow> fallback_response q ''No response received from AI'' stamp
           | Some a \<Rightarrow> if a = [] then fallback_response q ''No response received from AI'' stamp
                       else success_response s q a response stamp))"
  by (simp add: answerQuestion_def Let_def split: completion.split option.split)

lemma answerQuestion_no_properties:
  "properties s = [] \<Longrightarrow>
   answerQuestion s q k stamp =
     (None, fallback_response q ''No property data loaded. Please load properties first.'' stamp, s)"
  by (simp add: answerQuestion_def)

lemma askQuestion_uninitialized:
  "\<not> isInitialized c \<Longrightarrow>
   askQuestion c q env = Inl ''Chatbot not initialized. Please call initialize() first.''"
  by (simp add: askQuestion_def)

lemma askQuestion_service:
  "isInitialized c \<Longrightarrow> llmService c = Some svc \<Longrightarrow>
   askQuestion c q env =
     (let response = fst (snd (answerQuestion svc q (outcome env) (llm_stamp env)));
          svc' = snd (snd (answerQuestion svc q (outcome env) (llm_stamp env)));
          elapsed = endTime env - startTime env;
          tracked = trackQuery (costTracker c) q response elapsed (track_stamp env)
      in Inr (\<lparr> question = question response, answer = answer response,
                tokensUsed = tokensUsed response, usage = usage response,
                res_model = res_model response, error = error response,
                timestamp = timestamp response,
                responseTime = elapsed,
                questionNumber = questionCount c + 1,
                cost = (if enableCostTracking (config c) then Value (fst tracked) else Null) \<rparr>,
              c\<lparr> questionCount := questionCount c + 1,
                 llmService := Some svc',
                 costTracker := (if enableCostTracking (config c) then snd tracked
                                 else costTracker c) \<rparr>))"
  by (simp add: askQuestion_def Let_def split: prod.split)

lemma askQuestion_never_raises:
  "isInitialized c \<Longrightarrow> \<not> isl (askQuestion c q env)"
  by (cases "llmService c") (simp_all add: askQuestion_def Let_def split: prod.split)

lemma generateSystemPrompt_nonempty: "generateSystemPrompt s \<noteq> []"
  by (simp add: generateSystemPrompt_def Let_def)

lemma answerQuestion_keeps:
  "properties (snd (snd (answerQuestion s q k stamp))) = properties s"
  "options (snd (snd (answerQuestion s q k stamp))) = options s"
  by (simp_all add: answerQuestion_def Let_def split: completion.split option.split)

lemma fallback_error: "error (fallback_response q msg stamp) = Some msg"
  by (simp add: fallback_response_def)

lemma success_error: "error (success_response s q a response stamp) = None"
  by (simp add: success_response_def)

text \<open>The prompt a call sends and the cache it leaves, when the call reaches the endpoint.\<close>

lemma answerQuestion_prompt:
  assumes "properties s \<noteq> []"
  shows "\<exists>p r. fst (answerQuestion s q k stamp) = Some r
           \<and> messages r = [(''system'', p), (''user'', ''Question: '' @ q)]
           \<and> p \<noteq> []
           \<and> p = (if cacheSystemPrompt (options s) \<and> truthy (cachedSystemPrompt s)
                   then the (cachedSystemPrompt s) else generateSystemPrompt s)
           \<and> cachedSystemPrompt (snd (snd (answerQuestion s q k stamp)))
               = (if cacheSystemPrompt (options s) then Some p else cachedSystemPrompt s)"
proof (cases "cacheSystemPrompt (options s) \<and> truthy (cachedSystemPrompt s)")
  case True
  then obtain p where p: "cachedSystemPrompt s = Some p" "p \<noteq> []"
    by (cases "cachedSystemPrompt s") auto
  show ?thesis
    using assms True p
    by (simp add: answerQuestion_def Let_def split: completion.split option.split)
next
  case False
  show ?thesis
  proof (cases "cachedSystemPrompt s")
    case None
    then show ?thesis
      using assms False generateSystemPrompt_nonempty [of s]
      by (simp add: answerQuestion_def Let_def split: completion.split option.split)
  next
    case (Some p0)
    then show ?thesis
      using assms False generateSystemPrompt_nonempty [of s]
      by (auto simp: answerQuestion_def Let_def split: completion.split option.split)
  qed
qed

lemma success_reaches_endpoint:
  "error (fst (snd (answerQuestion s q k stamp))) = None \<Longrightarrow> properties s \<noteq> []"
  by (auto simp: answerQuestion_no_properties fallback_error)

lemma ready_service_eq: "llmService ready_chatbot = Some ready_service"
  by (simp add: ready_fields ready_service_def)

lemma first_content_samples:
  "first_content metered_completion = Some ''Rio Beach House at $18/night''"
  "first_content blank_completion = Some ''   ''"
  "first_content empty_completion = Some []"
  by (simp_all add: first_content_def metered_completion_def blank_completion_def
        empty_completion_def)

lemma metered_ok:
  "properties s \<noteq> [] \<Longrightarrow>
   error (fst (snd (answerQuestion s q (Resolves metered_completion) stamp))) = None"
  by (simp add: answerQuestion_response first_content_samples success_error)

lemma tracked_tokens_fallback:
  "tracked_tokens q (fallback_response q msg stamp) =
     ((int (length q) + 1003) div 4, 44)"
proof -
  have r: "reported_tokens (fallback_response q msg stamp) = (0, 0)"
    by (simp add: reported_tokens_def fallback_response_def)
  have a: "length (answer (fallback_response q msg stamp)) = 175"
    by (simp add: fallback_response_def llm_apology_def)
  have i: "Math_ceil (of_nat (length q + 1000) / 4) = (int (length q + 1000) + 3) div 4"
    by (rule Math_ceil_div4)
  have o: "Math_ceil (of_nat (175::nat) / 4) = (int 175 + 3) div 4"
    by (rule Math_ceil_div4)
  show ?thesis
    using i o by (simp add: tracked_tokens_def r a)
qed

text \<open>
  With cost tracking enabled, a question whose completion call is rejected is priced
  from the estimate and logged like any other.
\<close>

lemma rejected_query_is_tracked:
  assumes "isInitialized c" and "llmService c = Some svc" and "properties svc \<noteq> []"
      and "enableCostTracking (config c)" and "outcome env = Rejects msg"
  shows "\<not> isl (askQuestion c q env)
       \<and> error (fst (projr (askQuestion c q env))) = Some msg
       \<and> cost (fst (projr (askQuestion c q env)))
           = Value (calculateQueryCost (costTracker c) ((int (length q) + 1003) div 4) 44)
       \<and> length (sessions (costTracker (snd (projr (askQuestion c q env)))))
           = length (sessions (costTracker c)) + 1
       \<and> questionCount (snd (projr (askQuestion c q env))) = questionCount c + 1"
proof -
  have resp: "fst (snd (answerQuestion svc q (outcome env) (llm_stamp env)))
      = fallback_response q msg (llm_stamp env)"
    using assms(3,5) by (simp add: answerQuestion_response)
  have tq: "fst (trackQuery t q (fallback_response q msg st) e ts)
      = calculateQueryCost t ((int (length q) + 1003) div 4) 44" for t st e ts
    by (simp add: trackQuery_def tracked_tokens_fallback Let_def)
  show ?thesis
    using assms(4)
    by (simp add: askQuestion_service [OF assms(1,2)] Let_def resp tq trackQuery_sessions
          fallback_error)
qed

text \<open>With cost tracking disabled, no question touches the tracker.\<close>

lemma untracked_when_disabled:
  assumes "isInitialized c" and "llmService c = Some svc"
      and "\<not> enableCostTracking (config c)"
  shows "cost (fst (projr (askQuestion c q env))) = Null
       \<and> costTracker (snd (projr (askQuestion c q env))) = costTracker c"
  using assms(3) by (simp add: askQuestion_service [OF assms(1,2)] Let_def)

text \<open>No result of a question depends on the configured response timeout.\<close>

lemma answerQuestion_timeout_unread:
  "fst (answerQuestion (s\<lparr> options := (options s)\<lparr> responseTimeout := y \<rparr> \<rparr>) q k stamp)
     = fst (answerQuestion s q k stamp)
   \<and> fst (snd (answerQuestion (s\<lparr> options := (options s)\<lparr> responseTimeout := y \<rparr> \<rparr>) q k stamp))
     = fst (snd (answerQuestion s q k stamp))"
proof -
  have g: "generateSystemPrompt (s\<lparr> options := (options s)\<lparr> responseTimeout := y \<rparr> \<rparr>)
      = generateSystemPrompt s"
    unfolding generateSystemPrompt_def by simp
  have r: "success_response (s\<lparr> options := (options s)\<lparr> responseTimeout := y \<rparr> \<rparr>) q a resp stamp
      = success_response s q a resp stamp" for a resp
    by (simp add: success_response_def)
  show ?thesis
    unfolding answerQuestion_def Let_def g r
    by (simp split: completion.split option.split)
qed

lemma responseTimeout_unread:
  assumes "isInitialized c" and "llmService c = Some svc"
  shows "fst (projr (askQuestion
            (c\<lparr> config := (config c)\<lparr> cfg_responseTimeout := x \<rparr>,
               llmService := Some (svc\<lparr> options := (options svc)\<lparr> responseTimeout := y \<rparr> \<rparr>) \<rparr>)
            q env))
       = fst (projr (askQuestion c q env))"
proof -
  let ?c = "c\<lparr> config := (config c)\<lparr> cfg_responseTimeout := x \<rparr>,
               llmService := Some (svc\<lparr> options := (options svc)\<lparr> responseTimeout := y \<rparr> \<rparr>) \<rparr>"
  have i: "isInitialized ?c" using assms(1) by simp
  have s: "llmService ?c = Some (svc\<lparr> options := (options svc)\<lparr> responseTimeout := y \<rparr> \<rparr>)"
    by simp
  show ?thesis
    by (simp add: askQuestion_service [OF i s] askQuestion_service [OF assms] Let_def
          answerQuestion_timeout_unread)
qed

text \<open>
  Claim C1. A question whose completion attempt fails should leave the cost log and the
  session totals as they were and return \<open>cost = null\<close>. With cost tracking enabled the
  code does otherwise: \<open>answerQuestion\<close> turns the error into a result object without usage,
  and \<open>askQuestion\<close> hands that object to \<open>trackQuery\<close>. On the initialised chatbot with the
  default configuration, a question whose completion call is rejected comes back with a
  priced cost (258 estimated input tokens, and 44 output tokens for the 175 characters of
  the apology); the log grows from no entry to one and the total cost from 0 to 0.000475.
\<close>

theorem failed_query_is_priced:
  "\<not> isl (askQuestion ready_chatbot cheapest (env_of (Rejects ''Connection error.'') 850))
   \<and> error (fst (projr (askQuestion ready_chatbot cheapest
        (env_of (Rejects ''Connection error.'') 850)))) = Some ''Connection error.''
   \<and> cost (fst (projr (askQuestion ready_chatbot cheapest
        (env_of (Rejects ''Connection error.'') 850))))
       = Value \<lparr> inputTokens = 258, outputTokens = 44, totalTokens = 302,
                 inputCost = 387 / 1000000, outputCost = 88 / 1000000,
                 totalCost = 475 / 1000000 \<rparr>
   \<and> sessions (costTracker ready_chatbot) = []
   \<and> length (sessions (costTracker (snd (projr (askQuestion ready_chatbot cheapest
        (env_of (Rejects ''Connection error.'') 850)))))) = 1
   \<and> session_totalCost (costTracker ready_chatbot) = 0
   \<and> session_totalCost (costTracker (snd (projr (askQuestion ready_chatbot cheapest
        (env_of (Rejects ''Connection error.'') 850))))) = 475 / 1000000"
proof -
  let ?env = "env_of (Rejects ''Connection error.'') 850"
  have p: "properties ready_service \<noteq> []" by (simp add: ready_service_def)
  have o: "outcome ?env = Rejects ''Connection error.''" by (simp add: env_of_def)
  have resp: "fst (snd (answerQuestion ready_service cheapest (outcome ?env) (llm_stamp ?env)))
      = fallback_response cheapest ''Connection error.'' (llm_stamp ?env)"
    using p o by (simp add: answerQuestion_response)
  have len: "(int (length cheapest) + 1003) div 4 = 258" by (simp add: cheapest_def)
  have price: "calculateQueryCost CostTracker_new 258 44
      = \<lparr> inputTokens = 258, outputTokens = 44, totalTokens = 302,
          inputCost = 387 / 1000000, outputCost = 88 / 1000000,
          totalCost = 475 / 1000000 \<rparr>"
    by (simp add: calculateQueryCost_def CostTracker_new_def Let_def)
  have tq: "fst (trackQuery CostTracker_new cheapest
               (fallback_response cheapest ''Connection error.'' st) e ts)
      = \<lparr> inputTokens = 258, outputTokens = 44, totalTokens = 302,
          inputCost = 387 / 1000000, outputCost = 88 / 1000000,
          totalCost = 475 / 1000000 \<rparr>" for st e ts
    using price len by (simp add: trackQuery_def tracked_tokens_fallback Let_def)
  have new: "sessions CostTracker_new = []" "session_totalCost CostTracker_new = 0"
    by (simp_all add: CostTracker_new_def)
  show ?thesis
    by (simp add: askQuestion_service [OF ready_fields(1) ready_service_eq] Let_def resp tq
          ready_fields(2,4) trackQuery_sessions trackQuery_totalCost fallback_error new)
qed

text \<open>
  Claim C5. A completion call that takes longer than the configured response timeout
  should end as a failure. The timeout is stored in the configuration and in the options
  of the service and read nowhere: with the default of 30000 ms, a call that resolves after
  45000 ms is returned as a success, with its answer and no error.
\<close>

theorem slow_completion_accepted:
  "cfg_responseTimeout (config ready_chatbot) = 30000
   \<and> responseTimeout (options ready_service) = 30000
   \<and> llmService ready_chatbot = Some ready_service
   \<and> \<not> isl (askQuestion ready_chatbot cheapest (env_of (Resolves metered_completion) 45000))
   \<and> responseTime (fst (projr (askQuestion ready_chatbot cheapest
        (env_of (Resolves metered_completion) 45000)))) = 45000
   \<and> error (fst (projr (askQuestion ready_chatbot cheapest
        (env_of (Resolves metered_completion) 45000)))) = None
   \<and> answer (fst (projr (askQuestion ready_chatbot cheapest
        (env_of (Resolves metered_completion) 45000)))) = ''Rio Beach House at $18/night''"
proof -
  let ?env = "env_of (Resolves metered_completion) 45000"
  have p: "properties ready_service \<noteq> []" by (simp add: ready_service_def)
  have o: "outcome ?env = Resolves metered_completion" by (simp add: env_of_def)
  have t: "endTime ?env - startTime ?env = 45000" by (simp add: env_of_def)
  have tr: "trim ''Rio Beach House at $18/night'' = ''Rio Beach House at $18/night''"
    by (simp add: trim_def is_ws_def)
  have resp: "fst (snd (answerQuestion ready_service cheapest (outcome ?env) (llm_stamp ?env)))
      = success_response ready_service cheapest ''Rio Beach House at $18/night''
          metered_completion (llm_stamp ?env)"
    using p o by (simp add: answerQuestion_response first_content_samples)
  have r: "responseTimeout (options ready_service) = 30000" by (simp add: ready_service_def)
  show ?thesis
    using t tr r
    by (simp add: askQuestion_service [OF ready_fields(1) ready_service_eq] Let_def resp
          ready_fields(5) ready_service_eq success_response_def)
qed

text \<open>
  Claim C6. On an initialised chatbot every question should come back with a non-empty
  answer. \<open>askQuestion\<close> raises nothing there, yet the answer can be empty: the emptiness
  test of \<open>answerQuestion\<close> comes before \<open>trim\<close>, so a completion of three spaces passes it
  and is returned as a success whose answer is the empty string.
\<close>

theorem blank_completion_empty_answer:
  "isInitialized ready_chatbot
   \<and> \<not> isl (askQuestion ready_chatbot cheapest (env_of (Resolves blank_completion) 850))
   \<and> error (fst (projr (askQuestion ready_chatbot cheapest
        (env_of (Resolves blank_completion) 850)))) = None
   \<and> answer (fst (projr (askQuestion ready_chatbot cheapest
        (env_of (Resolves blank_completion) 850)))) = []"
proof -
  let ?env = "env_of (Resolves blank_completion) 850"
  have p: "properties ready_service \<noteq> []" by (simp add: ready_service_def)
  have o: "outcome ?env = Resolves blank_completion" by (simp add: env_of_def)
  have tr: "trim ''   '' = []" by (simp add: trim_def is_ws_def)
  have resp: "fst (snd (answerQuestion ready_service cheapest (outcome ?env) (llm_stamp ?env)))
      = success_response ready_service cheapest ''   '' blank_completion (llm_stamp ?env)"
    using p o by (simp add: answerQuestion_response first_content_samples)
  show ?thesis
    using tr
    by (simp add: askQuestion_service [OF ready_fields(1) ready_service_eq] Let_def resp
          ready_fields(1) success_response_def)
qed

lemma setProperties_fields:
  "properties (setProperties s ps) = ps"
  "options (setProperties s ps) = options s"
  "cachedSystemPrompt (setProperties s ps) = cachedSystemPrompt s"
  by (simp_all add: setProperties_def)

text \<open>
  Once the cache holds a non-empty string, every call that reaches the endpoint sends that
  string and leaves it in the cache, whatever the catalog is by then.
\<close>

lemma cached_prompt_reused:
  assumes "cacheSystemPrompt (options s)" and "cachedSystemPrompt s = Some p" and "p \<noteq> []"
      and "properties s \<noteq> []"
  shows "(\<exists>r. fst (answerQuestion s q k stamp) = Some r
            \<and> messages r = [(''system'', p), (''user'', ''Question: '' @ q)])
       \<and> cachedSystemPrompt (snd (snd (answerQuestion s q k stamp))) = Some p"
  using answerQuestion_prompt [OF assms(4), of q k stamp] assms(1,2,3) by auto

lemma answerQuestion_split:
  "answerQuestion s q k t =
     (fst (answerQuestion s q k t), fst (snd (answerQuestion s q k t)),
      snd (snd (answerQuestion s q k t)))"
  by simp

text \<open>
  Claim C7. With caching enabled, two consecutive successful \<open>answerQuestion\<close> calls send
  the same system prompt. A non-empty string already in the cache is the one sent, and
  nothing is generated; with an empty cache the prompt is generated by the first call and
  stored. The second call, and every later call that reaches the endpoint, sends the stored
  string and leaves it in the cache, also when the catalog has been replaced in between.
\<close>

theorem prompt_cache_idempotent:
  assumes cache: "cacheSystemPrompt (options s)"
      and call1: "answerQuestion s q1 k1 t1 = (req1, res1, s1)"
      and call2: "answerQuestion s1 q2 k2 t2 = (req2, res2, s2)"
      and ok1: "error res1 = None"
      and ok2: "error res2 = None"
  shows "\<exists>p r1 r2. req1 = Some r1 \<and> req2 = Some r2
           \<and> messages r1 = [(''system'', p), (''user'', ''Question: '' @ q1)]
           \<and> messages r2 = [(''system'', p), (''user'', ''Question: '' @ q2)]
           \<and> cachedSystemPrompt s1 = Some p
           \<and> cachedSystemPrompt s2 = Some p
           \<and> p \<noteq> []
           \<and> (truthy (cachedSystemPrompt s) \<longrightarrow> cachedSystemPrompt s = Some p)
           \<and> (\<not> truthy (cachedSystemPrompt s) \<longrightarrow> p = generateSystemPrompt s)
           \<and> (\<forall>ps q k t. ps \<noteq> [] \<longrightarrow>
                 (\<exists>r. fst (answerQuestion (setProperties s1 ps) q k t) = Some r
                      \<and> messages r = [(''system'', p), (''user'', ''Question: '' @ q)])
                 \<and> cachedSystemPrompt (snd (snd (answerQuestion (setProperties s1 ps) q k t)))
                     = Some p)"
proof -
  have props: "properties s \<noteq> []"
    using success_reaches_endpoint [of s q1 k1 t1] call1 ok1 by simp
  have s1_eq: "s1 = snd (snd (answerQuestion s q1 k1 t1))" using call1 by simp
  have props1: "properties s1 \<noteq> []" using props s1_eq by (simp add: answerQuestion_keeps)
  have cache1: "cacheSystemPrompt (options s1)" using cache s1_eq by (simp add: answerQuestion_keeps)
  obtain p r1 where first:
      "req1 = Some r1" "messages r1 = [(''system'', p), (''user'', ''Question: '' @ q1)]"
      "p \<noteq> []" "cachedSystemPrompt s1 = Some p"
      "p = (if truthy (cachedSystemPrompt s) then the (cachedSystemPrompt s)
            else generateSystemPrompt s)"
    using answerQuestion_prompt [OF props, of q1 k1 t1] call1 cache by auto
  have stored: "truthy (cachedSystemPrompt s) \<longrightarrow> cachedSystemPrompt s = Some p"
    using first(5) by (cases "cachedSystemPrompt s") auto
  have fresh: "\<not> truthy (cachedSystemPrompt s) \<longrightarrow> p = generateSystemPrompt s"
    using first(5) by simp
  have later: "(\<exists>r. fst (answerQuestion (setProperties s1 ps) q k t) = Some r
                  \<and> messages r = [(''system'', p), (''user'', ''Question: '' @ q)])
               \<and> cachedSystemPrompt (snd (snd (answerQuestion (setProperties s1 ps) q k t)))
                   = Some p"
    if "ps \<noteq> []" for ps q k t
    using cached_prompt_reused [of "setProperties s1 ps" p q k t] cache1 first(3,4) that
    by (simp add: setProperties_fields)
  have second: "(\<exists>r. fst (answerQuestion s1 q2 k2 t2) = Some r
                  \<and> messages r = [(''system'', p), (''user'', ''Question: '' @ q2)])
               \<and> cachedSystemPrompt (snd (snd (answerQuestion s1 q2 k2 t2))) = Some p"
    using cached_prompt_reused [OF cache1 first(4) first(3) props1] .
  then obtain r2 where r2: "req2 = Some r2"
      "messages r2 = [(''system'', p), (''user'', ''Question: '' @ q2)]"
      "cachedSystemPrompt s2 = Some p"
    using call2 by auto
  from first(1,2,3,4) r2 stored fresh later show ?thesis by blast
qed

theorem prompt_cache_idempotent_witness:
  "cacheSystemPrompt (options ready_service)
   \<and> cachedSystemPrompt ready_service = None
   \<and> error (fst (snd (answerQuestion ready_service cheapest (Resolves metered_completion)
         ''2024-01-01T00:00:01.000Z''))) = None
   \<and> error (fst (snd (answerQuestion
         (snd (snd (answerQuestion ready_service cheapest (Resolves metered_completion)
            ''2024-01-01T00:00:01.000Z'')))
         ''Show me luxury properties'' (Resolves metered_completion)
         ''2024-01-01T00:00:09.000Z''))) = None
   \<and> (\<exists>r1 r2.
         fst (answerQuestion ready_service cheapest (Resolves metered_completion)
            ''2024-01-01T00:00:01.000Z'') = Some r1
       \<and> fst (answerQuestion
            (snd (snd (answerQuestion ready_service cheapest (Resolves metered_completion)
               ''2024-01-01T00:00:01.000Z'')))
            ''Show me luxury properties'' (Resolves metered_completion)
            ''2024-01-01T00:00:09.000Z'') = Some r2
       \<and> messages r1 = [(''system'', generateSystemPrompt ready_service),
                          (''user'', ''Question: '' @ cheapest)]
       \<and> messages r2 = [(''system'', generateSystemPrompt ready_service),
                          (''user'', ''Question: Show me luxury properties'')])
   \<and> cacheSystemPrompt (options preset_service)
   \<and> cachedSystemPrompt preset_service = Some ''CACHED''
   \<and> (\<exists>r1 r2 r3.
         fst (answerQuestion preset_service cheapest (Resolves metered_completion)
            ''2024-01-01T00:00:01.000Z'') = Some r1
       \<and> fst (answerQuestion
            (snd (snd (answerQuestion preset_service cheapest (Resolves metered_completion)
               ''2024-01-01T00:00:01.000Z'')))
            ''Show me luxury properties'' (Resolves metered_completion)
            ''2024-01-01T00:00:09.000Z'') = Some r2
       \<and> fst (answerQuestion
            (setProperties
               (snd (snd (answerQuestion preset_service cheapest (Resolves metered_completion)
                  ''2024-01-01T00:00:01.000Z'')))
               [other_property])
            ''I need a place with parking'' (Rejects ''Connection error.'')
            ''2024-01-01T00:00:17.000Z'') = Some r3
       \<and> messages r1 = [(''system'', ''CACHED''), (''user'', ''Question: '' @ cheapest)]
       \<and> messages r2 = [(''system'', ''CACHED''),
                          (''user'', ''Question: Show me luxury properties'')]
       \<and> messages r3 = [(''system'', ''CACHED''),
                          (''user'', ''Question: I need a place with parking'')])"
proof -
  let ?a1 = "answerQuestion ready_service cheapest (Resolves metered_completion)
               ''2024-01-01T00:00:01.000Z''"
  let ?a2 = "answerQuestion (snd (snd ?a1)) ''Show me luxury properties''
               (Resolves metered_completion) ''2024-01-01T00:00:09.000Z''"
  let ?b1 = "answerQuestion preset_service cheapest (Resolves metered_completion)
               ''2024-01-01T00:00:01.000Z''"
  let ?b2 = "answerQuestion (snd (snd ?b1)) ''Show me luxury properties''
               (Resolves metered_completion) ''2024-01-01T00:00:09.000Z''"
  have a0: "cacheSystemPrompt (options ready_service)" by (simp add: ready_service_def)
  have an: "cachedSystemPrompt ready_service = None" by (simp add: ready_service_def)
  have ap: "properties ready_service \<noteq> []" by (simp add: ready_service_def)
  have ap1: "properties (snd (snd ?a1)) \<noteq> []" using ap by (simp add: answerQuestion_keeps)
  have a3: "error (fst (snd ?a1)) = None" using ap by (rule metered_ok)
  have a4: "error (fst (snd ?a2)) = None" using ap1 by (rule metered_ok)
  have b0: "cacheSystemPrompt (options preset_service)"
    by (simp add: preset_service_def ready_service_def)
  have bc: "cachedSystemPrompt preset_service = Some ''CACHED''"
    by (simp add: preset_service_def)
  have bp: "properties preset_service \<noteq> []"
    by (simp add: preset_service_def ready_service_def)
  have bp1: "properties (snd (snd ?b1)) \<noteq> []" using bp by (simp add: answerQuestion_keeps)
  have b3: "error (fst (snd ?b1)) = None" using bp by (rule metered_ok)
  have b4: "error (fst (snd ?b2)) = None" using bp1 by (rule metered_ok)
  have o: "[other_property] \<noteq> []" by simp
  note A = prompt_cache_idempotent [OF a0 answerQuestion_split answerQuestion_split a3 a4]
  note B = prompt_cache_idempotent [OF b0 answerQuestion_split answerQuestion_split b3 b4]
  have fresh: "\<exists>r1 r2. fst ?a1 = Some r1 \<and> fst ?a2 = Some r2
       \<and> messages r1 = [(''system'', generateSystemPrompt ready_service),
                          (''user'', ''Question: '' @ cheapest)]
       \<and> messages r2 = [(''system'', generateSystemPrompt ready_service),
                          (''user'', ''Question: Show me luxury properties'')]"
    using A an by auto
  obtain p r1 r2 where B':
      "fst ?b1 = Some r1" "fst ?b2 = Some r2"
      "messages r1 = [(''system'', p), (''user'', ''Question: '' @ cheapest)]"
      "messages r2 = [(''system'', p), (''user'', ''Question: '' @ ''Show me luxury properties'')]"
      "truthy (cachedSystemPrompt preset_service) \<longrightarrow> cachedSystemPrompt preset_service = Some p"
      "\<forall>ps q k t. ps \<noteq> [] \<longrightarrow>
         (\<exists>r. fst (answerQuestion (setProperties (snd (snd ?b1)) ps) q k t) = Some r
              \<and> messages r = [(''system'', p), (''user'', ''Question: '' @ q)])
         \<and> cachedSystemPrompt (snd (snd (answerQuestion (setProperties (snd (snd ?b1)) ps) q k t)))
             = Some p"
    using B by blast
  have p: "p = ''CACHED''" using B'(5) bc by simp
  obtain r3 where r3:
      "fst (answerQuestion (setProperties (snd (snd ?b1)) [other_property])
              ''I need a place with parking'' (Rejects ''Connection error.'')
              ''2024-01-01T00:00:17.000Z'') = Some r3"
      "messages r3 = [(''system'', p), (''user'', ''Question: '' @ ''I need a place with parking'')]"
    using B'(6) o by blast
  have stored: "\<exists>r1 r2 r3. fst ?b1 = Some r1 \<and> fst ?b2 = Some r2
       \<and> fst (answerQuestion (setProperties (snd (snd ?b1)) [other_property])
              ''I need a place with parking'' (Rejects ''Connection error.'')
              ''2024-01-01T00:00:17.000Z'') = Some r3
       \<and> messages r1 = [(''system'', ''CACHED''), (''user'', ''Question: '' @ cheapest)]
       \<and> messages r2 = [(''system'', ''CACHED''),
                          (''user'', ''Question: Show me luxury properties'')]
       \<and> messages r3 = [(''system'', ''CACHED''),
                          (''user'', ''Question: I need a place with parking'')]"
    using B'(1-4) r3 p by auto
  from a0 an a3 a4 fresh b0 bc stored show ?thesis by blast
qed

text \<open>
  Claim C8. When the completion call resolves and the answer text is missing or the empty
  string, \<open>answerQuestion\<close> returns the fallback object with an error message (\<open>No response
  received from AI\<close> once properties are loaded), and \<open>askQuestion\<close> on an initialised
  chatbot returns a result with that error and the apology as its answer.
\<close>

theorem empty_answer_is_failure:
  assumes "first_content response = None \<or> first_content response = Some []"
  shows "error (fst (snd (answerQuestion s q (Resolves response) stamp))) \<noteq> None
       \<and> answer (fst (snd (answerQuestion s q (Resolves response) stamp))) = llm_apology
       \<and> (properties s \<noteq> [] \<longrightarrow>
            error (fst (snd (answerQuestion s q (Resolves response) stamp)))
              = Some ''No response received from AI'')
       \<and> (isInitialized c \<and> outcome env = Resolves response \<longrightarrow>
            \<not> isl (askQuestion c q env)
            \<and> error (fst (projr (askQuestion c q env))) \<noteq> None
            \<and> answer (fst (projr (askQuestion c q env))) \<noteq> [])"
proof -
  have llm: "error (fst (snd (answerQuestion s' q (Resolves response) stamp'))) \<noteq> None
       \<and> answer (fst (snd (answerQuestion s' q (Resolves response) stamp'))) = llm_apology
       \<and> (properties s' \<noteq> [] \<longrightarrow>
            error (fst (snd (answerQuestion s' q (Resolves response) stamp')))
              = Some ''No response received from AI'')" for s' stamp'
  proof (cases "properties s' = []")
    case True
    then show ?thesis
      by (simp add: answerQuestion_no_properties fallback_response_def)
  next
    case False
    then show ?thesis
      using assms by (auto simp: answerQuestion_response fallback_response_def)
  qed
  have bot: "\<not> isl (askQuestion c q env)
            \<and> error (fst (projr (askQuestion c q env))) \<noteq> None
            \<and> answer (fst (projr (askQuestion c q env))) \<noteq> []"
    if init: "isInitialized c" and out: "outcome env = Resolves response"
  proof (cases "llmService c")
    case None
    then show ?thesis
      using init by (simp add: askQuestion_def Let_def chatbot_apology_def)
  next
    case (Some svc)
    have "llm_apology \<noteq> []" by (simp add: llm_apology_def)
    then show ?thesis
      using llm [of svc "llm_stamp env"] out
      by (simp add: askQuestion_service [OF init Some] Let_def)
  qed
  from llm [of s stamp] bot show ?thesis by blast
qed

theorem empty_answer_is_failure_witness:
  "first_content empty_completion = Some []
   \<and> properties ready_service \<noteq> []
   \<and> error (fst (snd (answerQuestion ready_service cheapest (Resolves empty_completion)
        ''2024-01-01T00:00:01.000Z''))) = Some ''No response received from AI''
   \<and> isInitialized ready_chatbot
   \<and> outcome (env_of (Resolves empty_completion) 850) = Resolves empty_completion
   \<and> \<not> isl (askQuestion ready_chatbot cheapest (env_of (Resolves empty_completion) 850))
   \<and> error (fst (projr (askQuestion ready_chatbot cheapest
        (env_of (Resolves empty_completion) 850)))) \<noteq> None"
proof -
  have a: "first_content empty_completion = None \<or> first_content empty_completion = Some []"
    by (simp add: first_content_samples)
  have p: "properties ready_service \<noteq> []" by (simp add: ready_service_def)
  have o: "outcome (env_of (Resolves empty_completion) 850) = Resolves empty_completion"
    by (simp add: env_of_def)
  from empty_answer_is_failure [OF a, of ready_service cheapest "''2024-01-01T00:00:01.000Z''"
         ready_chatbot "env_of (Resolves empty_completion) 850"] p o
  show ?thesis by (simp add: first_content_samples ready_fields)
qed

end
